theory Spec2Isabelle
  imports Main
begin

section \<open>The ipdb launcher: data model\<close>

text \<open>
  The module \<^verbatim>\<open>ipdb/__main__.py\<close> is a thin launcher around an external debugger engine.
  Its own state is process-wide: the global exception hook \<^verbatim>\<open>sys.excepthook\<close>, the attribute
  \<^verbatim>\<open>BdbQuit_excepthook.excepthook_ori\<close>, \<^verbatim>\<open>sys.argv\<close> and \<^verbatim>\<open>sys.path\<close>. The model threads this
  state explicitly, and records every call into the external engine and every line printed as
  an event of a trace.
\<close>

subsection \<open>Hooks, exceptions, events\<close>

text \<open>
  Python compares functions by identity, so a hook is either the one function object
  \<^verbatim>\<open>BdbQuit_excepthook\<close> or some other callable, named by a number.
\<close>

datatype hook = BdbQuit_excepthook | Other_hook nat

text \<open>Tracebacks and frames are opaque handles.\<close>

type_synonym tb = nat
type_synonym frame = nat

text \<open>
  The exception classes the launcher tells apart. \<^verbatim>\<open>SystemExit\<close> and \<^verbatim>\<open>KeyboardInterrupt\<close> derive
  from \<^verbatim>\<open>BaseException\<close> only; \<^verbatim>\<open>Restart\<close> (of pdb, or the local fallback class) derives from
  \<^verbatim>\<open>Exception\<close>.
\<close>

datatype exc_class =
    Restart
  | SystemExit
  | KeyboardInterrupt
  | TypeError
  | AttributeError
  | IndexError
  | GetoptError
  | Other_Exception string
  | Other_BaseException string

text \<open>
  A raised exception: its class, \<^verbatim>\<open>repr\<close> of the instance, \<^verbatim>\<open>str\<close> of the instance, and its
  traceback.
\<close>

datatype exc = Exc (exc_class: exc_class) (exc_repr: string) (exc_str: string) (exc_tb: tb)


datatype event =
    Stdout string
  | Stderr string
  | Print_exc exc
  | Construct string "int option"
  | Reset
  | Interaction tb
  | Set_trace frame
  | Restore_sys_module_state
  | Run string
  | Runcall "string list"
  | Runeval string
  | Runscript string

subsection \<open>Process-wide state\<close>

text \<open>
  \<open>excepthook_ori\<close> is the attribute of the function object \<^verbatim>\<open>BdbQuit_excepthook\<close>; it is
  unset (\<open>None\<close>) until somebody assigns it. \<open>exc_info\<close> is the exception currently being
  handled, \<open>last_traceback\<close> the attribute \<^verbatim>\<open>sys.last_traceback\<close>, which does not exist
  (\<open>None\<close>) before the interpreter has reported an uncaught exception. Every event of
  \<open>trace\<close> is stored with the exception hook that was in force when it happened.
\<close>

record world =
  sys_excepthook :: hook
  excepthook_ori :: "hook option"
  sys_argv :: "string list"
  sys_path :: "string list"
  exc_info :: "exc option"
  last_traceback :: "tb option"
  trace :: "(hook \<times> event) list"

definition emit :: "event \<Rightarrow> world \<Rightarrow> world" where
  "emit e s = s\<lparr>trace := trace s @ [(sys_excepthook s, e)]\<rparr>"

text \<open>The events a call has added to the trace of \<open>s\<close>, given the state \<open>s'\<close> it ended in.\<close>

definition new_events :: "world \<Rightarrow> world \<Rightarrow> (hook \<times> event) list" where
  "new_events s s' = drop (length (trace s)) (trace s')"

text \<open>
  A process that has handled no exception yet: hook \<open>h\<close> installed, nothing recorded on the
  sentinel, an empty trace.
\<close>

definition fresh_world :: "hook \<Rightarrow> string list \<Rightarrow> string list \<Rightarrow> world" where
  "fresh_world h argv path =
     \<lparr>sys_excepthook = h, excepthook_ori = None, sys_argv = argv, sys_path = path,
      exc_info = None, last_traceback = None, trace = []\<rparr>"

definition nl :: string where
  "nl = [CHR 0x0A]"

section \<open>The exception-hook guard\<close>

text \<open>
  \<^verbatim>\<open>
  def wrap_sys_excepthook():
      # make sure we wrap it only once or we would end up with a cycle
      #  BdbQuit_excepthook.excepthook_ori == BdbQuit_excepthook
      if sys.excepthook != BdbQuit_excepthook:
          BdbQuit_excepthook.excepthook_ori = sys.excepthook
          sys.excepthook = BdbQuit_excepthook
  \<close>
\<close>

definition wrap_sys_excepthook :: "world \<Rightarrow> world" where
  "wrap_sys_excepthook s =
     (if sys_excepthook s \<noteq> BdbQuit_excepthook
      then (s\<lparr>excepthook_ori := Some (sys_excepthook s)\<rparr>)\<lparr>sys_excepthook := BdbQuit_excepthook\<rparr>
      else s)"

section \<open>The external collaborators\<close>

text \<open>
  The interactive shell a Debugger Instance is attached to, as far as the launcher touches
  it. When the shell is created it saves the state of the \<^verbatim>\<open>sys\<close> module, among it the
  exception hook in force at that moment; \<open>orig_excepthook\<close> is that saved hook, \<open>None\<close>
  for a shell that has saved nothing.
\<close>

datatype interactive_shell = Shell (orig_excepthook: "hook option")


text \<open>
  A Debugger Instance as far as the launcher touches it: the colour scheme and the number
  of context lines it was built with, the startup commands \<^verbatim>\<open>rcLines\<close>, and its \<^verbatim>\<open>shell\<close>
  attribute, \<open>None\<close> when it has none.
\<close>

record pdb =
  color_scheme :: string
  context_lines :: "int option"
  rcLines :: "string list"
  shell :: "interactive_shell option"

text \<open>
  What the launcher finds around it. \<open>def_colors\<close> and \<open>exec_lines\<close> are read from
  the IPython application when the module is imported. \<open>debugger_cls\<close> is the constructor
  of the debugger class, called with the colour scheme and, optionally, the keyword
  \<^verbatim>\<open>context\<close>; it returns a new instance or raises. The \<open>engine_\<close> fields say how the
  engine's methods \<^verbatim>\<open>interaction\<close>, \<^verbatim>\<open>run\<close>, \<^verbatim>\<open>runcall\<close> and \<^verbatim>\<open>runeval\<close> end for given
  arguments: they run code and commands of the user, so they may raise. \<open>getopt\<close>,
  \<open>os_path_exists\<close> and \<open>os_path_dirname\<close> are the library functions of these names.
  The engine's \<^verbatim>\<open>reset\<close>, \<^verbatim>\<open>set_trace\<close> and \<^verbatim>\<open>restore_sys_module_state\<close> return normally, and
  no call into the engine but \<^verbatim>\<open>restore_sys_module_state\<close> assigns \<^verbatim>\<open>sys.excepthook\<close>,
  \<^verbatim>\<open>sys.argv\<close> or \<^verbatim>\<open>sys.path\<close>.
\<close>

record env =
  def_colors :: string
  exec_lines :: "string list"
  debugger_cls :: "string \<Rightarrow> int option \<Rightarrow> exc + pdb"
  engine_interaction :: "tb \<Rightarrow> exc option"
  engine_run :: "string \<Rightarrow> exc option"
  engine_runcall :: "string list \<Rightarrow> exc + string"
  engine_runeval :: "string \<Rightarrow> exc + string"
  getopt :: "string list \<Rightarrow> string \<Rightarrow> string list
               \<Rightarrow> exc + ((string \<times> string) list \<times> string list)"
  os_path_exists :: "string \<Rightarrow> bool"
  os_path_dirname :: "string \<Rightarrow> string"

section \<open>The debugger factory\<close>

text \<open>
  \<^verbatim>\<open>
  def_exec_lines = [line + '\n' for line in ipapp.exec_lines]

  def _init_pdb(context=3, commands=[]):
      try:
          p = debugger_cls(def_colors, context=context)
      except TypeError:
          p = debugger_cls(def_colors)
      p.rcLines += def_exec_lines
      p.rcLines.extend(commands)
      return p
  \<close>
\<close>

definition def_exec_lines :: "env \<Rightarrow> string list" where
  "def_exec_lines E = map (\<lambda>line. line @ nl) (exec_lines E)"

text \<open>The two statements after the construction.\<close>

definition add_startup_commands :: "env \<Rightarrow> string list \<Rightarrow> pdb \<Rightarrow> pdb" where
  "add_startup_commands E commands p =
     (let p1 = p\<lparr>rcLines := rcLines p @ def_exec_lines E\<rparr>;
          p2 = p1\<lparr>rcLines := rcLines p1 @ commands\<rparr>
      in p2)"

definition init_pdb :: "env \<Rightarrow> int \<Rightarrow> string list \<Rightarrow> world \<Rightarrow> (exc + pdb) \<times> world" where
  "init_pdb E context commands s =
     (let s1 = emit (Construct (def_colors E) (Some context)) s in
      case debugger_cls E (def_colors E) (Some context) of
        Inr p \<Rightarrow> (Inr (add_startup_commands E commands p), s1)
      | Inl e \<Rightarrow>
          if exc_class e = TypeError
          then (let s2 = emit (Construct (def_colors E) None) s1 in
                case debugger_cls E (def_colors E) None of
                  Inr p \<Rightarrow> (Inr (add_startup_commands E commands p), s2)
                | Inl e' \<Rightarrow> (Inl e', s2))
          else (Inl e, s1))"

text \<open>
  The constructor calls \<^verbatim>\<open>_init_pdb\<close> makes: one with the keyword \<^verbatim>\<open>context\<close>, and a second
  without it when the first raised \<^verbatim>\<open>TypeError\<close>.
\<close>

definition init_pdb_events :: "env \<Rightarrow> int \<Rightarrow> event list" where
  "init_pdb_events E context =
     (case debugger_cls E (def_colors E) (Some context) of
        Inr p \<Rightarrow> [Construct (def_colors E) (Some context)]
      | Inl e \<Rightarrow>
          if exc_class e = TypeError
          then [Construct (def_colors E) (Some context), Construct (def_colors E) None]
          else [Construct (def_colors E) (Some context)])"

section \<open>The entry points\<close>


text \<open>
  \<^verbatim>\<open>
  def post_mortem(tb=None):
      wrap_sys_excepthook()
      p = _init_pdb()
      p.reset()
      if tb is None:
          tb = sys.exc_info()[2]
      if tb:
          p.interaction(None, tb)
  \<close>
  A traceback object is true; \<^verbatim>\<open>sys.exc_info()[2]\<close> is \<^verbatim>\<open>None\<close> when no exception is being
  handled.
\<close>

definition post_mortem :: "env \<Rightarrow> tb option \<Rightarrow> world \<Rightarrow> (exc + unit) \<times> world" where
  "post_mortem E tb s =
     (let s1 = wrap_sys_excepthook s in
      case init_pdb E 3 [] s1 of
        (Inl e, s2) \<Rightarrow> (Inl e, s2)
      | (Inr p, s2) \<Rightarrow>
          (let s3 = emit Reset s2;
               tb' = (case tb of None \<Rightarrow> map_option exc_tb (exc_info s3) | Some t \<Rightarrow> Some t)
           in case tb' of
                None \<Rightarrow> (Inr (), s3)
              | Some t \<Rightarrow>
                  (case engine_interaction E t of
                     None \<Rightarrow> (Inr (), emit (Interaction t) s3)
                   | Some e \<Rightarrow> (Inl e, emit (Interaction t) s3))))"

text \<open>
  \<^verbatim>\<open>
  def pm():
      post_mortem(sys.last_traceback)
  \<close>
  Reading the attribute raises \<^verbatim>\<open>AttributeError\<close> when it does not exist.
\<close>

definition quoted :: "string \<Rightarrow> string" where
  "quoted x = [CHR 0x27] @ x @ [CHR 0x27]"



text \<open>
  \<^verbatim>\<open>
  def run(statement, globals=None, locals=None):
      _init_pdb().run(statement, globals, locals)

  def runcall(*args, **kwargs):
      return _init_pdb().runcall(*args, **kwargs)

  def runeval(expression, globals=None, locals=None):
      return _init_pdb().runeval(expression, globals, locals)
  \<close>
  The namespaces \<^verbatim>\<open>globals\<close> and \<^verbatim>\<open>locals\<close> are handed through untouched and left out.
\<close>

definition run :: "env \<Rightarrow> string \<Rightarrow> world \<Rightarrow> (exc + unit) \<times> world" where
  "run E statement s =
     (case init_pdb E 3 [] s of
        (Inl e, s1) \<Rightarrow> (Inl e, s1)
      | (Inr p, s1) \<Rightarrow>
          (case engine_run E statement of
             None \<Rightarrow> (Inr (), emit (Run statement) s1)
           | Some e \<Rightarrow> (Inl e, emit (Run statement) s1)))"




section \<open>The script runner\<close>

text \<open>
  The usage text \<^verbatim>\<open>_usage\<close>, eleven lines without a final newline.
\<close>

definition usage :: string where
  \<open>usage =
     ''usage: python -m ipdb [-c command] ... pyfile [arg] ...'' @ nl @
     nl @
     ''Debug the Python program given by pyfile.'' @ nl @
     nl @
     ''Initial commands are read from .pdbrc files in your home directory'' @ nl @
     ''and in the current directory, if they exist.  Commands supplied with'' @ nl @
     ''-c are executed after commands from .pdbrc files.'' @ nl @
     nl @
     ''To let the script run until an exception occurs, use "-c continue".'' @ nl @
     ''To let the script run up to a given line X in the debugged file, use'' @ nl @
     ''"-c 'until X'".''\<close>

text \<open>
  How \<^verbatim>\<open>main\<close> ends: it returns (the loop was left by \<^verbatim>\<open>break\<close>), it calls \<^verbatim>\<open>sys.exit\<close> with or
  without a status, or an exception leaves it.
\<close>

datatype main_result = Returns | Exits "int option" | Raises exc

text \<open>The status of the process when \<^verbatim>\<open>sys.exit\<close> ends it: no argument means 0.\<close>

fun exit_status :: "int option \<Rightarrow> int" where
  "exit_status None = 0"
| "exit_status (Some n) = n"

text \<open>
  \<^verbatim>\<open>
  commands = []
  for opt, optarg in opts:
      if opt in ['-h', '--help']:
          print(_usage)
          sys.exit()
      elif opt in ['-c', '--command']:
          commands.append(optarg)
  \<close>
  \<open>None\<close> stands for the branch that prints the usage text and exits.
\<close>

fun main_options :: "(string \<times> string) list \<Rightarrow> string list \<Rightarrow> string list option" where
  "main_options [] commands = Some commands"
| "main_options ((opt, optarg) # opts) commands =
     (if opt \<in> set [''-h'', ''--help''] then None
      else if opt \<in> set [''-c'', ''--command''] then main_options opts (commands @ [optarg])
      else main_options opts commands)"

definition index_error :: exc where
  "index_error =
     Exc IndexError (''IndexError('' @ quoted ''list assignment index out of range'' @ '')'')
       ''list assignment index out of range'' 0"

text \<open>
  \<^verbatim>\<open>
  opts, args = getopt.getopt(sys.argv[1:], 'hc:', ['--help', '--command='])
  if not args:
      print(_usage)
      sys.exit(2)
  commands = [] ... (the loop above)
  mainpyfile = args[0]     # Get script filename
  if not os.path.exists(mainpyfile):
      print('Error:', mainpyfile, 'does not exist')
      sys.exit(1)
  sys.argv = args     # Hide "pdb.py" from argument list
  # Replace pdb's dir with script's dir in front of module search path.
  sys.path[0] = os.path.dirname(mainpyfile)
  \<close>
  The part of \<^verbatim>\<open>main\<close> before the debugger is built. It ends \<^verbatim>\<open>main\<close> (\<open>Inl\<close>) or yields the
  script's path and the commands collected from the options. Assigning to index 0 of an empty
  list raises \<^verbatim>\<open>IndexError\<close>.
\<close>

definition main_setup :: "env \<Rightarrow> world \<Rightarrow> (main_result + string \<times> string list) \<times> world" where
  "main_setup E s =
     (case getopt E (drop 1 (sys_argv s)) ''hc:'' [''--help'', ''--command=''] of
        Inl e \<Rightarrow> (Inl (Raises e), s)
      | Inr (opts, args) \<Rightarrow>
          (case args of
             [] \<Rightarrow> (Inl (Exits (Some 2)), emit (Stdout (usage @ nl)) s)
           | mainpyfile # _ \<Rightarrow>
               (case main_options opts [] of
                  None \<Rightarrow> (Inl (Exits None), emit (Stdout (usage @ nl)) s)
                | Some commands \<Rightarrow>
                    if \<not> os_path_exists E mainpyfile
                    then (Inl (Exits (Some 1)),
                          emit (Stdout (''Error: '' @ mainpyfile @ '' does not exist'' @ nl)) s)
                    else (let s1 = s\<lparr>sys_argv := args\<rparr> in
                          case sys_path s1 of
                            [] \<Rightarrow> (Inl (Raises index_error), s1)
                          | _ # rest \<Rightarrow>
                              (Inr (mainpyfile, commands),
                               s1\<lparr>sys_path := os_path_dirname E mainpyfile # rest\<rparr>)))))"

text \<open>
  One execution of the script by \<^verbatim>\<open>pdb._runscript(mainpyfile)\<close>: it returns, and
  \<^verbatim>\<open>pdb._user_requested_quit\<close> is then true or false, or it raises.
\<close>

datatype attempt = Completes bool | Fails exc

fun join :: "string \<Rightarrow> string list \<Rightarrow> string" where
  "join sep [] = []"
| "join sep [x] = x"
| "join sep (x # y # ys) = x @ sep @ join sep (y # ys)"

text \<open>
  \<^verbatim>\<open>
  while 1:
      try:
          pdb._runscript(mainpyfile)
          if pdb._user_requested_quit:
              break
          print("The program finished and will be restarted")
      except Restart:
          print("Restarting", mainpyfile, "with arguments:")
          print("\t" + " ".join(sys.argv[1:]))
      except SystemExit:
          # In most cases SystemExit does not warrant a post-mortem session.
          print("The program exited via sys.exit(). Exit status: ", end='')
          print(sys.exc_info()[1])
      except:
          traceback.print_exc()
          print("Uncaught exception. Entering post mortem debugging")
          print("Running 'cont' or 'step' will restart the program")
          t = sys.exc_info()[2]
          pdb.interaction(None, t)
          print("Post mortem debugger finished. The " + mainpyfile +
                " will be restarted")
  \<close>
  The loop has no bound of its own. The list gives the outcome of each execution of the
  script in turn; when it is used up and the loop has not ended, the result is \<open>None\<close>.
  The one Debugger Instance built before the loop serves every iteration.
\<close>

fun main_loop :: "env \<Rightarrow> string \<Rightarrow> attempt list \<Rightarrow> world \<Rightarrow> main_result option \<times> world" where
  "main_loop E mainpyfile [] s = (None, s)"
| "main_loop E mainpyfile (a # as) s =
     (let s1 = emit (Runscript mainpyfile) s in
      case a of
        Completes user_requested_quit \<Rightarrow>
          if user_requested_quit then (Some Returns, s1)
          else main_loop E mainpyfile as
                 (emit (Stdout (''The program finished and will be restarted'' @ nl)) s1)
      | Fails e \<Rightarrow>
          if exc_class e = Restart
          then (let s2 = emit (Stdout (''Restarting '' @ mainpyfile @ '' with arguments:'' @ nl)) s1;
                    s3 = emit (Stdout ([CHR 0x09] @ join '' '' (drop 1 (sys_argv s2)) @ nl)) s2
                in main_loop E mainpyfile as s3)
          else if exc_class e = SystemExit
          then (let s2 = emit (Stdout ''The program exited via sys.exit(). Exit status: '') s1;
                    s3 = emit (Stdout (exc_str e @ nl)) s2
                in main_loop E mainpyfile as s3)
          else (let s2 = emit (Print_exc e) s1;
                    s3 = emit (Stdout (''Uncaught exception. Entering post mortem debugging'' @ nl)) s2;
                    s4 = emit (Stdout (''Running 'cont' or 'step' will restart the program'' @ nl)) s3;
                    t = exc_tb e;
                    s5 = emit (Interaction t) s4
                in case engine_interaction E t of
                     Some e' \<Rightarrow> (Some (Raises e'), s5)
                   | None \<Rightarrow>
                       main_loop E mainpyfile as
                         (emit (Stdout (''Post mortem debugger finished. The '' @ mainpyfile @
                                        '' will be restarted'' @ nl)) s5)))"

text \<open>
  \<^verbatim>\<open>
  def main():
      ... (the setup above)
      pdb = _init_pdb(commands=commands)
      while 1: ... (the loop above)
  \<close>
\<close>

definition main :: "env \<Rightarrow> attempt list \<Rightarrow> world \<Rightarrow> main_result option \<times> world" where
  "main E attempts s =
     (case main_setup E s of
        (Inl r, s1) \<Rightarrow> (Some r, s1)
      | (Inr (mainpyfile, commands), s1) \<Rightarrow>
          (case init_pdb E 3 commands s1 of
             (Inl e, s2) \<Rightarrow> (Some (Raises e), s2)
           | (Inr pdb, s2) \<Rightarrow> main_loop E mainpyfile attempts s2))"

section \<open>The library function getopt\<close>

text \<open>
  \<^verbatim>\<open>getopt.getopt\<close> of the Python standard library, for the options \<^verbatim>\<open>main\<close> passes to it. It is
  not part of the launcher; the theorems below hold for any \<open>getopt\<close>, and this definition is
  what the examples run on a concrete command line.
  \<^verbatim>\<open>
  def short_has_arg(opt, shortopts):
      for i in range(len(shortopts)):
          if opt == shortopts[i] != ':':
              return shortopts.startswith(':', i+1)
      raise GetoptError(_('option -%s not recognized') % opt, opt)
  \<close>
\<close>

definition getopt_error :: "string \<Rightarrow> string \<Rightarrow> exc" where
  "getopt_error msg opt =
     Exc GetoptError (''GetoptError('' @ quoted msg @ '', '' @ quoted opt @ '')'') msg 0"

fun short_has_arg :: "char \<Rightarrow> string \<Rightarrow> exc + bool" where
  "short_has_arg opt [] = Inl (getopt_error (''option -'' @ [opt] @ '' not recognized'') [opt])"
| "short_has_arg opt (c # cs) =
     (if opt = c \<and> c \<noteq> CHR '':'' then Inr (take 1 cs = '':'')
      else short_has_arg opt cs)"

text \<open>
  \<^verbatim>\<open>
  def do_shorts(opts, optstring, shortopts, args):
      while optstring != '':
          opt, optstring = optstring[0], optstring[1:]
          if short_has_arg(opt, shortopts):
              if optstring == '':
                  if not args:
                      raise GetoptError(_('option -%s requires argument') % opt, opt)
                  optstring, args = args[0], args[1:]
              optarg, optstring = optstring, ''
          else:
              optarg = ''
          opts.append(('-' + opt, optarg))
      return opts, args
  \<close>
\<close>

fun do_shorts ::
  "(string \<times> string) list \<Rightarrow> string \<Rightarrow> string \<Rightarrow> string list
     \<Rightarrow> exc + ((string \<times> string) list \<times> string list)" where
  "do_shorts opts [] shortopts args = Inr (opts, args)"
| "do_shorts opts (opt # optstring) shortopts args =
     (case short_has_arg opt shortopts of
        Inl e \<Rightarrow> Inl e
      | Inr True \<Rightarrow>
          if optstring = []
          then (case args of
                  [] \<Rightarrow> Inl (getopt_error (''option -'' @ [opt] @ '' requires argument'') [opt])
                | a # args' \<Rightarrow> Inr (opts @ [(''-'' @ [opt], a)], args'))
          else Inr (opts @ [(''-'' @ [opt], optstring)], args)
      | Inr False \<Rightarrow> do_shorts (opts @ [(''-'' @ [opt], [])]) optstring shortopts args)"

text \<open>
  \<^verbatim>\<open>
  def long_has_args(opt, longopts):
      possibilities = [o for o in longopts if o.startswith(opt)]
      if not possibilities:
          raise GetoptError(_('option --%s not recognized') % opt, opt)
      if opt in possibilities:
          return False, opt
      elif opt + '=' in possibilities:
          return True, opt
      if len(possibilities) > 1:
          raise GetoptError(_('option --%s not a unique prefix') % opt, opt)
      unique_match = possibilities[0]
      has_arg = unique_match.endswith('=')
      if has_arg:
          unique_match = unique_match[:-1]
      return has_arg, unique_match
  \<close>
\<close>

definition startswith :: "string \<Rightarrow> string \<Rightarrow> bool" where
  "startswith s p = (take (length p) s = p)"

definition long_has_args :: "string \<Rightarrow> string list \<Rightarrow> exc + (bool \<times> string)" where
  "long_has_args opt longopts =
     (let possibilities = filter (\<lambda>o'. startswith o' opt) longopts in
      case possibilities of
        [] \<Rightarrow> Inl (getopt_error (''option --'' @ opt @ '' not recognized'') opt)
      | unique_match # others \<Rightarrow>
          if opt \<in> set possibilities then Inr (False, opt)
          else if opt @ ''='' \<in> set possibilities then Inr (True, opt)
          else if others \<noteq> []
          then Inl (getopt_error (''option --'' @ opt @ '' not a unique prefix'') opt)
          else (let has_arg = (unique_match \<noteq> [] \<and> last unique_match = CHR ''='')
                in Inr (has_arg, if has_arg then butlast unique_match else unique_match)))"

text \<open>
  \<^verbatim>\<open>
  def do_longs(opts, opt, longopts, args):
      try:
          i = opt.index('=')
      except ValueError:
          optarg = None
      else:
          opt, optarg = opt[:i], opt[i+1:]
      has_arg, opt = long_has_args(opt, longopts)
      if has_arg:
          if optarg is None:
              if not args:
                  raise GetoptError(_('option --%s requires argument') % opt, opt)
              optarg, args = args[0], args[1:]
      elif optarg is not None:
          raise GetoptError(_('option --%s must not have an argument') % opt, opt)
      opts.append(('--' + opt, optarg or ''))
      return opts, args
  \<close>
\<close>

definition do_longs ::
  "(string \<times> string) list \<Rightarrow> string \<Rightarrow> string list \<Rightarrow> string list
     \<Rightarrow> exc + ((string \<times> string) list \<times> string list)" where
  "do_longs opts opt0 longopts args =
     (let (opt1, optarg) =
            (if CHR ''='' \<in> set opt0
             then (takeWhile (\<lambda>c. c \<noteq> CHR ''='') opt0,
                   Some (drop 1 (dropWhile (\<lambda>c. c \<noteq> CHR ''='') opt0)))
             else (opt0, None))
      in case long_has_args opt1 longopts of
           Inl e \<Rightarrow> Inl e
         | Inr (has_arg, opt) \<Rightarrow>
             if has_arg
             then (case optarg of
                     None \<Rightarrow>
                       (case args of
                          [] \<Rightarrow> Inl (getopt_error (''option --'' @ opt @ '' requires argument'') opt)
                        | a # args' \<Rightarrow> Inr (opts @ [(''--'' @ opt, a)], args'))
                   | Some v \<Rightarrow> Inr (opts @ [(''--'' @ opt, v)], args))
             else (case optarg of
                     Some v \<Rightarrow>
                       Inl (getopt_error (''option --'' @ opt @ '' must not have an argument'') opt)
                   | None \<Rightarrow> Inr (opts @ [(''--'' @ opt, [])], args)))"

text \<open>
  \<^verbatim>\<open>
  def getopt(args, shortopts, longopts = []):
      opts = []
      ...
      while args and args[0].startswith('-') and args[0] != '-':
          if args[0] == '--':
              args = args[1:]
              break
          if args[0].startswith('--'):
              opts, args = do_longs(opts, args[0][2:], longopts, args[1:])
          else:
              opts, args = do_shorts(opts, args[0][1:], shortopts, args[1:])
      return opts, args
  \<close>
  Each round drops the first argument and at most one more, so the number of rounds is at
  most the number of arguments; \<open>n\<close> counts the rounds left, and the number of arguments is
  enough of them (\<open>py_getopt_loop\<close> below).
\<close>

fun getopt_loop ::
  "nat \<Rightarrow> (string \<times> string) list \<Rightarrow> string list \<Rightarrow> string \<Rightarrow> string list
     \<Rightarrow> (exc + ((string \<times> string) list \<times> string list)) option" where
  "getopt_loop n opts [] shortopts longopts = Some (Inr (opts, []))"
| "getopt_loop 0 opts (a # rest) shortopts longopts =
     (if startswith a ''-'' \<and> a \<noteq> ''-'' then None else Some (Inr (opts, a # rest)))"
| "getopt_loop (Suc n) opts (a # rest) shortopts longopts =
     (if startswith a ''-'' \<and> a \<noteq> ''-''
      then (if a = ''--'' then Some (Inr (opts, rest))
            else (case (if startswith a ''--''
                        then do_longs opts (drop 2 a) longopts rest
                        else do_shorts opts (drop 1 a) shortopts rest) of
                    Inl e \<Rightarrow> Some (Inl e)
                  | Inr (opts', args') \<Rightarrow> getopt_loop n opts' args' shortopts longopts))
      else Some (Inr (opts, a # rest)))"

definition py_getopt ::
  "string list \<Rightarrow> string \<Rightarrow> string list \<Rightarrow> exc + ((string \<times> string) list \<times> string list)" where
  "py_getopt args shortopts longopts =
     (case getopt_loop (length args) [] args shortopts longopts of
        Some r \<Rightarrow> r
      | None \<Rightarrow> Inl (getopt_error ''unreachable'' []))"

section \<open>A concrete environment\<close>

text \<open>
  An engine for the examples. Its constructor accepts the keyword \<^verbatim>\<open>context\<close> or, like the
  older engine, raises \<^verbatim>\<open>TypeError\<close> on it; a new instance starts with the commands \<open>pdbrc\<close>,
  which the engine has read from the \<^verbatim>\<open>.pdbrc\<close> files, and is attached to a shell that was
  created, and saved the hook \<open>Other_hook 0\<close>, before the launcher did anything. Sessions
  and runs end normally. The one script that exists is \<^verbatim>\<open>/home/u/script.py\<close>.
\<close>

definition sample_cls :: "string list \<Rightarrow> bool \<Rightarrow> string \<Rightarrow> int option \<Rightarrow> exc + pdb" where
  "sample_cls pdbrc accepts_context colors context =
     (if context \<noteq> None \<and> \<not> accepts_context
      then Inl (Exc TypeError
                  (''TypeError('' @ [CHR 0x22] @ ''__init__() got an unexpected keyword argument ''
                     @ quoted ''context'' @ [CHR 0x22] @ '')'')
                  (''__init__() got an unexpected keyword argument '' @ quoted ''context'') 0)
      else Inr \<lparr>color_scheme = colors, context_lines = context, rcLines = pdbrc,
                shell = Some (Shell (Some (Other_hook 0)))\<rparr>)"

definition sample_env :: "string list \<Rightarrow> bool \<Rightarrow> env" where
  "sample_env pdbrc accepts_context =
     \<lparr>def_colors = ''Neutral'',
      exec_lines = [''import os''],
      debugger_cls = sample_cls pdbrc accepts_context,
      engine_interaction = (\<lambda>t. None),
      engine_run = (\<lambda>statement. None),
      engine_runcall = (\<lambda>args. Inr ''None''),
      engine_runeval = (\<lambda>expression. Inr ''None''),
      getopt = py_getopt,
      os_path_exists = (\<lambda>p. p = ''/home/u/script.py''),
      os_path_dirname = (\<lambda>p. if p = ''/home/u/script.py'' then ''/home/u'' else [])\<rparr>"


text \<open>
  A command line for the examples: one \<^verbatim>\<open>-c\<close> option, the script, one argument of the script.
\<close>

definition sample_world :: world where
  "sample_world =
     fresh_world (Other_hook 0)
       [''ipdb'', ''-c'', ''continue'', ''/home/u/script.py'', ''a'']
       [''/pdb'', ''/usr/lib'']"

section \<open>Observations on traces\<close>



text \<open>
  The traceback \<^verbatim>\<open>post_mortem\<close> works on, and the calls into the engine it makes after the
  guard: the constructor calls, then \<^verbatim>\<open>reset\<close> and, with a traceback, \<^verbatim>\<open>interaction\<close>.
\<close>

definition post_mortem_tb :: "tb option \<Rightarrow> world \<Rightarrow> tb option" where
  "post_mortem_tb tb s = (case tb of None \<Rightarrow> map_option exc_tb (exc_info s) | Some t \<Rightarrow> Some t)"

definition post_mortem_events :: "env \<Rightarrow> tb option \<Rightarrow> world \<Rightarrow> event list" where
  "post_mortem_events E tb s =
     init_pdb_events E 3 @
     (case fst (init_pdb E 3 [] s) of
        Inl e \<Rightarrow> []
      | Inr p \<Rightarrow> Reset # (case post_mortem_tb tb s of None \<Rightarrow> [] | Some t \<Rightarrow> [Interaction t]))"

text \<open>
  The events of the runner's loop, iteration by iteration: \<open>argv\<close> is \<^verbatim>\<open>sys.argv\<close>, which the
  restart notice prints.
\<close>

fun main_loop_events :: "env \<Rightarrow> string \<Rightarrow> string list \<Rightarrow> attempt list \<Rightarrow> event list" where
  "main_loop_events E mainpyfile argv [] = []"
| "main_loop_events E mainpyfile argv (a # as) =
     Runscript mainpyfile #
     (case a of
        Completes user_requested_quit \<Rightarrow>
          if user_requested_quit then []
          else Stdout (''The program finished and will be restarted'' @ nl) #
               main_loop_events E mainpyfile argv as
      | Fails e \<Rightarrow>
          if exc_class e = Restart
          then Stdout (''Restarting '' @ mainpyfile @ '' with arguments:'' @ nl) #
               Stdout ([CHR 0x09] @ join '' '' (drop 1 argv) @ nl) #
               main_loop_events E mainpyfile argv as
          else if exc_class e = SystemExit
          then Stdout ''The program exited via sys.exit(). Exit status: '' #
               Stdout (exc_str e @ nl) #
               main_loop_events E mainpyfile argv as
          else Print_exc e #
               Stdout (''Uncaught exception. Entering post mortem debugging'' @ nl) #
               Stdout (''Running 'cont' or 'step' will restart the program'' @ nl) #
               Interaction (exc_tb e) #
               (case engine_interaction E (exc_tb e) of
                  Some e' \<Rightarrow> []
                | None \<Rightarrow>
                    Stdout (''Post mortem debugger finished. The '' @ mainpyfile @
                            '' will be restarted'' @ nl) #
                    main_loop_events E mainpyfile argv as))"

section \<open>Properties of the guard\<close>

lemma wrap_sys_excepthook_twice:
  "wrap_sys_excepthook (wrap_sys_excepthook s) = wrap_sys_excepthook s"
  by (simp add: wrap_sys_excepthook_def)

lemma wrap_sys_excepthook_funpow:
  "(wrap_sys_excepthook ^^ Suc n) s = wrap_sys_excepthook s"
  by (induction n) (simp_all add: wrap_sys_excepthook_twice)

lemma wrap_sys_excepthook_installed [simp]:
  "sys_excepthook (wrap_sys_excepthook s) = BdbQuit_excepthook"
  by (simp add: wrap_sys_excepthook_def)

lemma wrap_sys_excepthook_trace [simp]:
  "trace (wrap_sys_excepthook s) = trace s"
  by (simp add: wrap_sys_excepthook_def)

text \<open>
  C1. Calling the guard \<open>N \<ge> 1\<close> times is the same as calling it once, and afterwards the
  global hook is the sentinel \<^verbatim>\<open>BdbQuit_excepthook\<close>. When the sentinel was not yet the global
  hook, the hook that was active before is what \<open>excepthook_ori\<close> holds afterwards, and that is
  not the sentinel: one layer, with the previous hook as its fallback. When the sentinel was
  installed already, nothing is touched, so the guard never stores the sentinel in
  \<open>excepthook_ori\<close>.
\<close>

theorem wrap_sys_excepthook_idempotent:
  assumes "1 \<le> N"
  shows "(wrap_sys_excepthook ^^ N) s = wrap_sys_excepthook s
       \<and> sys_excepthook ((wrap_sys_excepthook ^^ N) s) = BdbQuit_excepthook
       \<and> (if sys_excepthook s = BdbQuit_excepthook
          then (wrap_sys_excepthook ^^ N) s = s
          else excepthook_ori ((wrap_sys_excepthook ^^ N) s) = Some (sys_excepthook s)
             \<and> excepthook_ori ((wrap_sys_excepthook ^^ N) s) \<noteq> Some BdbQuit_excepthook)"
proof -
  from assms obtain n where N: "N = Suc n"
    by (cases N) auto
  have once: "(wrap_sys_excepthook ^^ N) s = wrap_sys_excepthook s"
    unfolding N by (rule wrap_sys_excepthook_funpow)
  show ?thesis
    unfolding once by (simp add: wrap_sys_excepthook_def)
qed

theorem wrap_sys_excepthook_idempotent_witness:
  "(1::nat) \<le> 3
   \<and> (wrap_sys_excepthook ^^ 3) (fresh_world (Other_hook 0) [] []) =
       wrap_sys_excepthook (fresh_world (Other_hook 0) [] [])
   \<and> sys_excepthook ((wrap_sys_excepthook ^^ 3) (fresh_world (Other_hook 0) [] [])) =
       BdbQuit_excepthook
   \<and> excepthook_ori ((wrap_sys_excepthook ^^ 3) (fresh_world (Other_hook 0) [] [])) =
       Some (Other_hook 0)
   \<and> (wrap_sys_excepthook ^^ 3)
         ((fresh_world BdbQuit_excepthook [] [])\<lparr>excepthook_ori := Some (Other_hook 1)\<rparr>) =
       (fresh_world BdbQuit_excepthook [] [])\<lparr>excepthook_ori := Some (Other_hook 1)\<rparr>"
proof -
  have three: "(1::nat) \<le> 3"
    by simp
  have once: "(wrap_sys_excepthook ^^ 3) (fresh_world (Other_hook 0) [] []) =
      wrap_sys_excepthook (fresh_world (Other_hook 0) [] [])"
    using wrap_sys_excepthook_idempotent [OF three, of "fresh_world (Other_hook 0) [] []"]
    by (rule conjunct1)
  have installed: "(wrap_sys_excepthook ^^ 3)
        ((fresh_world BdbQuit_excepthook [] [])\<lparr>excepthook_ori := Some (Other_hook 1)\<rparr>) =
      (fresh_world BdbQuit_excepthook [] [])\<lparr>excepthook_ori := Some (Other_hook 1)\<rparr>"
    using wrap_sys_excepthook_idempotent [OF three,
        of "(fresh_world BdbQuit_excepthook [] [])\<lparr>excepthook_ori := Some (Other_hook 1)\<rparr>"]
    by (simp add: fresh_world_def wrap_sys_excepthook_def)
  show ?thesis
    unfolding once installed by (simp add: wrap_sys_excepthook_def fresh_world_def)
qed

section \<open>Traces and results of the operations\<close>

lemma emit_fields [simp]:
  "sys_excepthook (emit e s) = sys_excepthook s"
  "excepthook_ori (emit e s) = excepthook_ori s"
  "sys_argv (emit e s) = sys_argv s"
  "sys_path (emit e s) = sys_path s"
  "exc_info (emit e s) = exc_info s"
  "last_traceback (emit e s) = last_traceback s"
  "trace (emit e s) = trace s @ [(sys_excepthook s, e)]"
  by (simp_all add: emit_def)

lemma wrap_sys_excepthook_fields [simp]:
  "sys_argv (wrap_sys_excepthook s) = sys_argv s"
  "sys_path (wrap_sys_excepthook s) = sys_path s"
  "exc_info (wrap_sys_excepthook s) = exc_info s"
  "last_traceback (wrap_sys_excepthook s) = last_traceback s"
  by (simp_all add: wrap_sys_excepthook_def)

lemma wrap_sys_excepthook_ori:
  "excepthook_ori (wrap_sys_excepthook s) =
     (if sys_excepthook s = BdbQuit_excepthook then excepthook_ori s
      else Some (sys_excepthook s))"
  by (simp add: wrap_sys_excepthook_def)

lemma new_events_append: "trace s' = trace s @ evs \<Longrightarrow> new_events s s' = evs"
  by (simp add: new_events_def)

lemma init_pdb_fst_indep: "fst (init_pdb E c cmds s) = fst (init_pdb E c cmds s')"
  by (simp add: init_pdb_def Let_def split: sum.splits)

lemma init_pdb_world:
  "snd (init_pdb E c cmds s) =
     s\<lparr>trace := trace s @ map (Pair (sys_excepthook s)) (init_pdb_events E c)\<rparr>"
  by (simp add: init_pdb_def init_pdb_events_def emit_def Let_def split: sum.splits)



lemma init_pdb_events_no_session: "Interaction t \<notin> set (init_pdb_events E c)"
  by (simp add: init_pdb_events_def split: sum.splits)


lemma post_mortem_world:
  "snd (post_mortem E tb s) =
     (wrap_sys_excepthook s)\<lparr>trace := trace s @
        map (Pair BdbQuit_excepthook) (post_mortem_events E tb s)\<rparr>"
proof -
  obtain r s2 where i: "init_pdb E 3 [] (wrap_sys_excepthook s) = (r, s2)"
    by (cases "init_pdb E 3 [] (wrap_sys_excepthook s)")
  have s2: "s2 = (wrap_sys_excepthook s)\<lparr>trace := trace s @
        map (Pair BdbQuit_excepthook) (init_pdb_events E 3)\<rparr>"
    using init_pdb_world [of E 3 "[]" "wrap_sys_excepthook s"] i by simp
  have r: "fst (init_pdb E 3 [] s) = r"
    using init_pdb_fst_indep [of E 3 "[]" s "wrap_sys_excepthook s"] i by simp
  show ?thesis
    by (simp add: post_mortem_def post_mortem_events_def post_mortem_tb_def i r s2 emit_def
        Let_def split: sum.splits option.splits)
qed

lemma post_mortem_result:
  "fst (post_mortem E tb s) =
     (case fst (init_pdb E 3 [] s) of
        Inl e \<Rightarrow> Inl e
      | Inr p \<Rightarrow>
          (case post_mortem_tb tb s of
             None \<Rightarrow> Inr ()
           | Some t \<Rightarrow> (case engine_interaction E t of None \<Rightarrow> Inr () | Some e \<Rightarrow> Inl e)))"
proof -
  obtain r s2 where i: "init_pdb E 3 [] (wrap_sys_excepthook s) = (r, s2)"
    by (cases "init_pdb E 3 [] (wrap_sys_excepthook s)")
  have s2: "exc_info s2 = exc_info s"
    using init_pdb_world [of E 3 "[]" "wrap_sys_excepthook s"] i by simp
  have r: "fst (init_pdb E 3 [] s) = r"
    using init_pdb_fst_indep [of E 3 "[]" s "wrap_sys_excepthook s"] i by simp
  show ?thesis
    by (simp add: post_mortem_def post_mortem_tb_def i r s2 Let_def
        split: sum.splits option.splits)
qed








section \<open>Properties of the entry points and of the factory\<close>




text \<open>
  C4, as amended. An instance that \<^verbatim>\<open>_init_pdb\<close> returns was built by the constructor, with
  the keyword \<^verbatim>\<open>context\<close> or, after a \<^verbatim>\<open>TypeError\<close>, without it. Its startup commands are those
  the constructor gave it, then the shell's lines, each with a newline appended, then the
  caller's commands, in this order and with nothing dropped (so when the constructor gave
  it none, they are the shell's lines followed by the caller's commands).
\<close>

theorem init_pdb_startup_commands:
  assumes "fst (init_pdb E context commands s) = Inr p"
  shows "\<exists>p0. (debugger_cls E (def_colors E) (Some context) = Inr p0
             \<or> (\<exists>e. debugger_cls E (def_colors E) (Some context) = Inl e
                   \<and> exc_class e = TypeError
                   \<and> debugger_cls E (def_colors E) None = Inr p0))
           \<and> rcLines p = rcLines p0 @ def_exec_lines E @ commands"
  using assms
  by (auto simp: init_pdb_def add_startup_commands_def Let_def split: sum.splits if_splits)

theorem init_pdb_startup_commands_witness:
  "fst (init_pdb (sample_env [''alias ll list''] False) 5 [''continue'']
          (fresh_world (Other_hook 0) [] [])) =
     Inr \<lparr>color_scheme = ''Neutral'', context_lines = None,
          rcLines = [''alias ll list'', ''import os\<newline>'', ''continue''], shell = Some (Shell (Some (Other_hook 0)))\<rparr>
   \<and> (\<exists>p0::pdb. [''alias ll list'', ''import os\<newline>'', ''continue''] =
               rcLines p0 @ def_exec_lines (sample_env [''alias ll list''] False) @ [''continue''])"
proof -
  have h: "fst (init_pdb (sample_env [''alias ll list''] False) 5 [''continue'']
          (fresh_world (Other_hook 0) [] [])) =
     Inr \<lparr>color_scheme = ''Neutral'', context_lines = None,
          rcLines = [''alias ll list'', ''import os\<newline>'', ''continue''], shell = Some (Shell (Some (Other_hook 0)))\<rparr>"
    by (simp add: init_pdb_def add_startup_commands_def def_exec_lines_def sample_env_def
        sample_cls_def nl_def Let_def)
  from init_pdb_startup_commands [OF h]
  have "\<exists>p0::pdb. rcLines \<lparr>color_scheme = ''Neutral'', context_lines = None,
          rcLines = [''alias ll list'', ''import os\<newline>'', ''continue''], shell = Some (Shell (Some (Other_hook 0)))\<rparr> =
      rcLines p0 @ def_exec_lines (sample_env [''alias ll list''] False) @ [''continue'']"
    by (elim exE conjE) (rule exI)
  then have "\<exists>p0::pdb. [''alias ll list'', ''import os\<newline>'', ''continue''] =
      rcLines p0 @ def_exec_lines (sample_env [''alias ll list''] False) @ [''continue'']"
    by simp
  with h show ?thesis
    by (rule conjI)
qed

theorem init_pdb_startup_commands_counterexample:
  "(1::int) \<le> 3
   \<and> map_sum id rcLines
       (fst (init_pdb (sample_env [''alias ll list''] True) 3 [''continue'']
          (fresh_world (Other_hook 0) [] []))) \<noteq>
     Inr (def_exec_lines (sample_env [''alias ll list''] True) @ [''continue''])"
  by (simp add: init_pdb_def add_startup_commands_def def_exec_lines_def sample_env_def
      sample_cls_def nl_def Let_def)

subsection \<open>post_mortem without a traceback\<close>

lemma post_mortem_new_events:
  "new_events s (snd (post_mortem E tb s)) =
     map (Pair BdbQuit_excepthook) (post_mortem_events E tb s)"
  by (rule new_events_append) (simp add: post_mortem_world)

text \<open>
  C7. With no traceback argument and no exception being handled, \<^verbatim>\<open>post_mortem\<close> enters no
  interactive session, and it raises nothing of its own: it ends as the factory ends, so it
  returns normally whenever the factory yields a Debugger Instance.
\<close>

theorem post_mortem_no_traceback:
  assumes "exc_info s = None"
  shows "(\<forall>h t. (h, Interaction t) \<notin> set (new_events s (snd (post_mortem E None s))))
       \<and> fst (post_mortem E None s) =
           (case fst (init_pdb E 3 [] s) of Inl e \<Rightarrow> Inl e | Inr p \<Rightarrow> Inr ())
       \<and> (\<forall>p. fst (init_pdb E 3 [] s) = Inr p \<longrightarrow> fst (post_mortem E None s) = Inr ())"
proof -
  have tb: "post_mortem_tb None s = None"
    using assms by (simp add: post_mortem_tb_def)
  have "Interaction t \<notin> set (post_mortem_events E None s)" for t
    using init_pdb_events_no_session [of t E 3]
    by (simp add: post_mortem_events_def tb split: sum.splits)
  then have no_session:
    "\<forall>h t. (h, Interaction t) \<notin> set (new_events s (snd (post_mortem E None s)))"
    by (auto simp: post_mortem_new_events)
  have res: "fst (post_mortem E None s) =
      (case fst (init_pdb E 3 [] s) of Inl e \<Rightarrow> Inl e | Inr p \<Rightarrow> Inr ())"
    by (simp add: post_mortem_result tb split: sum.splits)
  from no_session res show ?thesis
    by simp
qed

theorem post_mortem_no_traceback_witness:
  "exc_info (fresh_world (Other_hook 0) [] []) = None
   \<and> fst (post_mortem (sample_env [] True) None (fresh_world (Other_hook 0) [] [])) = Inr ()
   \<and> map snd (trace (snd (post_mortem (sample_env [] True) None
        (fresh_world (Other_hook 0) [] [])))) = [Construct ''Neutral'' (Some 3), Reset]"
proof -
  have h: "exc_info (fresh_world (Other_hook 0) [] []) = None"
    by (simp add: fresh_world_def)
  have i: "fst (init_pdb (sample_env [] True) 3 [] (fresh_world (Other_hook 0) [] [])) =
      Inr (add_startup_commands (sample_env [] True) []
             \<lparr>color_scheme = ''Neutral'', context_lines = Some 3, rcLines = [],
              shell = Some (Shell (Some (Other_hook 0)))\<rparr>)"
    by (simp add: init_pdb_def sample_env_def sample_cls_def Let_def)
  have r: "fst (post_mortem (sample_env [] True) None (fresh_world (Other_hook 0) [] [])) =
      Inr ()"
    using post_mortem_no_traceback [OF h, of "sample_env [] True"] i by simp
  have t: "map snd (trace (snd (post_mortem (sample_env [] True) None
        (fresh_world (Other_hook 0) [] [])))) = [Construct ''Neutral'' (Some 3), Reset]"
    by (simp add: post_mortem_def init_pdb_def sample_env_def sample_cls_def
        fresh_world_def wrap_sys_excepthook_def emit_def Let_def)
  from h r t show ?thesis
    by simp
qed

text \<open>
  C10. Every call of \<^verbatim>\<open>post_mortem\<close> ends with the sentinel installed as the global exception
  hook, and with the recorded original set as the guard sets it. In the case without a
  traceback and without an exception being handled, and with a factory that yields an
  instance, the call has still gone to the constructor and to \<^verbatim>\<open>reset\<close>, with the sentinel in
  force, and to nothing else.
\<close>

theorem post_mortem_installs_hook:
  "sys_excepthook (snd (post_mortem E tb s)) = BdbQuit_excepthook
   \<and> excepthook_ori (snd (post_mortem E tb s)) =
       (if sys_excepthook s = BdbQuit_excepthook then excepthook_ori s
        else Some (sys_excepthook s))
   \<and> (exc_info s = None \<and> fst (init_pdb E 3 [] s) = Inr p \<longrightarrow>
        new_events s (snd (post_mortem E None s)) =
          map (Pair BdbQuit_excepthook) (init_pdb_events E 3 @ [Reset]))"
proof -
  have hook: "sys_excepthook (snd (post_mortem E tb s)) = BdbQuit_excepthook"
    by (simp add: post_mortem_world)
  have ori: "excepthook_ori (snd (post_mortem E tb s)) =
      (if sys_excepthook s = BdbQuit_excepthook then excepthook_ori s
       else Some (sys_excepthook s))"
    by (simp add: post_mortem_world wrap_sys_excepthook_ori)
  have calls: "exc_info s = None \<and> fst (init_pdb E 3 [] s) = Inr p \<longrightarrow>
      new_events s (snd (post_mortem E None s)) =
        map (Pair BdbQuit_excepthook) (init_pdb_events E 3 @ [Reset])"
    by (simp add: post_mortem_new_events post_mortem_events_def post_mortem_tb_def)
  from hook ori calls show ?thesis
    by (intro conjI)
qed

theorem post_mortem_installs_hook_witness:
  "exc_info (fresh_world (Other_hook 0) [] []) = None
   \<and> fst (init_pdb (sample_env [] False) 3 [] (fresh_world (Other_hook 0) [] [])) =
       Inr \<lparr>color_scheme = ''Neutral'', context_lines = None, rcLines = [''import os\<newline>''],
            shell = Some (Shell (Some (Other_hook 0)))\<rparr>
   \<and> sys_excepthook (snd (post_mortem (sample_env [] False) None
        (fresh_world (Other_hook 0) [] []))) = BdbQuit_excepthook
   \<and> excepthook_ori (snd (post_mortem (sample_env [] False) None
        (fresh_world (Other_hook 0) [] []))) = Some (Other_hook 0)
   \<and> new_events (fresh_world (Other_hook 0) [] [])
        (snd (post_mortem (sample_env [] False) None (fresh_world (Other_hook 0) [] []))) =
       [(BdbQuit_excepthook, Construct ''Neutral'' (Some 3)),
        (BdbQuit_excepthook, Construct ''Neutral'' None),
        (BdbQuit_excepthook, Reset)]"
proof -
  have h: "exc_info (fresh_world (Other_hook 0) [] []) = None"
    by (simp add: fresh_world_def)
  have i: "fst (init_pdb (sample_env [] False) 3 [] (fresh_world (Other_hook 0) [] [])) =
       Inr \<lparr>color_scheme = ''Neutral'', context_lines = None, rcLines = [''import os\<newline>''],
            shell = Some (Shell (Some (Other_hook 0)))\<rparr>"
    by (simp add: init_pdb_def add_startup_commands_def def_exec_lines_def sample_env_def
        sample_cls_def nl_def Let_def)
  have ev: "init_pdb_events (sample_env [] False) 3 =
      [Construct ''Neutral'' (Some 3), Construct ''Neutral'' None]"
    by (simp add: init_pdb_events_def sample_env_def sample_cls_def)
  have w: "sys_excepthook (fresh_world (Other_hook 0) [] []) = Other_hook 0"
    by (simp add: fresh_world_def)
  note th = post_mortem_installs_hook [of "sample_env [] False" None
      "fresh_world (Other_hook 0) [] []"
      "\<lparr>color_scheme = ''Neutral'', context_lines = None, rcLines = [''import os\<newline>''],
        shell = Some (Shell (Some (Other_hook 0)))\<rparr>"]
  show ?thesis
    using th h i by (simp add: ev w)
qed

subsection \<open>The scope helper\<close>




section \<open>The option parser ends within its bound\<close>

lemma do_shorts_length:
  "do_shorts opts optstring shortopts args = Inr (opts', args') \<Longrightarrow> length args' \<le> length args"
  by (induction optstring arbitrary: opts)
    (auto split: sum.splits bool.splits if_splits list.splits)

lemma do_longs_length:
  "do_longs opts opt longopts args = Inr (opts', args') \<Longrightarrow> length args' \<le> length args"
  by (auto simp: do_longs_def Let_def
      split: sum.splits prod.splits if_splits list.splits option.splits)

lemma getopt_loop_fuel:
  "length args \<le> n \<Longrightarrow> getopt_loop n opts args shortopts longopts \<noteq> None"
proof (induction n arbitrary: opts args)
  case 0
  then show ?case by simp
next
  case (Suc n)
  show ?case
  proof (cases args)
    case Nil
    then show ?thesis by simp
  next
    case (Cons a rest)
    have rest: "length rest \<le> n"
      using Suc.prems Cons by simp
    have "getopt_loop n opts' args' shortopts longopts \<noteq> None"
      if "do_longs opts (drop 2 a) longopts rest = Inr (opts', args')" for opts' args'
      using do_longs_length [OF that] rest by (intro Suc.IH) simp
    moreover have "getopt_loop n opts' args' shortopts longopts \<noteq> None"
      if "do_shorts opts (drop 1 a) shortopts rest = Inr (opts', args')" for opts' args'
      using do_shorts_length [OF that] rest by (intro Suc.IH) simp
    ultimately show ?thesis
      using Cons by (auto split: sum.splits)
  qed
qed

lemma py_getopt_loop:
  "getopt_loop (length args) [] args shortopts longopts = Some (py_getopt args shortopts longopts)"
  using getopt_loop_fuel [of args "length args" "[]" shortopts longopts]
  by (auto simp: py_getopt_def split: option.splits)

section \<open>Properties of the script runner\<close>

lemma main_options_help:
  "\<exists>opt \<in> set opts. fst opt = ''-h'' \<or> fst opt = ''--help'' \<Longrightarrow> main_options opts commands = None"
  by (induction opts commands rule: main_options.induct) auto

lemma emit_as_update:
  "emit ev s = s\<lparr>trace := trace s @ map (Pair (sys_excepthook s)) [ev]\<rparr>"
  by (simp add: emit_def)

lemma main_loop_world:
  "snd (main_loop E f as s) =
     s\<lparr>trace := trace s @ map (Pair (sys_excepthook s)) (main_loop_events E f (sys_argv s) as)\<rparr>"
proof (induction as arbitrary: s)
  case Nil
  show ?case by simp
next
  case (Cons a as)
  show ?case
    by (cases a) (simp_all add: Cons.IH emit_def Let_def split: option.splits)
qed

lemma main_loop_new_events:
  "map snd (new_events s (snd (main_loop E f as s))) = main_loop_events E f (sys_argv s) as"
proof -
  have "new_events s (snd (main_loop E f as s)) =
      map (Pair (sys_excepthook s)) (main_loop_events E f (sys_argv s) as)"
    by (rule new_events_append) (simp add: main_loop_world)
  then show ?thesis
    by (simp add: comp_def)
qed

lemma sample_getopt:
  "py_getopt [''-c'', ''continue'', ''/home/u/script.py'', ''a''] ''hc:''
     [''--help'', ''--command=''] =
   Inr ([(''-c'', ''continue'')], [''/home/u/script.py'', ''a''])"
  by (simp add: py_getopt_def startswith_def)

lemma sample_setup:
  "main_setup (sample_env [] True) sample_world =
     (Inr (''/home/u/script.py'', [''continue'']),
      sample_world\<lparr>sys_argv := [''/home/u/script.py'', ''a''],
                   sys_path := [''/home/u'', ''/usr/lib'']\<rparr>)"
  by (simp add: main_setup_def sample_env_def sample_world_def fresh_world_def sample_getopt)

lemma sample_main:
  "main (sample_env [] True) attempts sample_world =
     main_loop (sample_env [] True) ''/home/u/script.py'' attempts
       (emit (Construct ''Neutral'' (Some 3))
          (sample_world\<lparr>sys_argv := [''/home/u/script.py'', ''a''],
                        sys_path := [''/home/u'', ''/usr/lib'']\<rparr>))"
  by (simp add: main_def sample_setup init_pdb_def Let_def)
    (simp add: sample_env_def sample_cls_def)

text \<open>
  The long form of the help flag does not get through the option parser: \<^verbatim>\<open>main\<close> passes
  the long option names with their dashes, so \<^verbatim>\<open>--help\<close> is not recognized.
\<close>

lemma long_help_not_recognized:
  "map_sum exc_class id
     (py_getopt [''--help'', ''/home/u/script.py''] ''hc:'' [''--help'', ''--command='']) =
   Inl GetoptError"
  by (simp add: py_getopt_def startswith_def do_longs_def long_has_args_def getopt_error_def)

subsection \<open>The help flag\<close>

text \<open>
  C8, as amended. When the parsed options hold \<^verbatim>\<open>-h\<close> or \<^verbatim>\<open>--help\<close>, \<^verbatim>\<open>main\<close> prints the usage
  text and exits, before it looks at the script: with status 0 (\<^verbatim>\<open>sys.exit()\<close>) when a script
  path is given, and with status 2 when none is given, since the test for a missing script
  path comes first.
\<close>

theorem main_help:
  assumes "getopt E (drop 1 (sys_argv s)) ''hc:'' [''--help'', ''--command=''] = Inr (opts, args)"
    and "\<exists>opt \<in> set opts. fst opt = ''-h'' \<or> fst opt = ''--help''"
  shows "main E attempts s =
           (Some (Exits (if args = [] then Some 2 else None)), emit (Stdout (usage @ nl)) s)
       \<and> exit_status (if args = [] then Some 2 else None) = (if args = [] then 2 else 0)"
  using assms
  by (simp add: main_def main_setup_def main_options_help split: list.splits)

theorem main_help_witness:
  "getopt (sample_env [] True) (drop 1 [''ipdb'', ''-h'', ''/nowhere.py''])
       ''hc:'' [''--help'', ''--command=''] = Inr ([(''-h'', [])], [''/nowhere.py''])
   \<and> main (sample_env [] True) []
         (fresh_world (Other_hook 0) [''ipdb'', ''-h'', ''/nowhere.py''] [''/pdb'']) =
       (Some (Exits None),
        emit (Stdout (usage @ nl))
          (fresh_world (Other_hook 0) [''ipdb'', ''-h'', ''/nowhere.py''] [''/pdb'']))
   \<and> exit_status None = 0"
proof -
  let ?w = "fresh_world (Other_hook 0) [''ipdb'', ''-h'', ''/nowhere.py''] [''/pdb'']"
  have g: "getopt (sample_env [] True) (drop 1 [''ipdb'', ''-h'', ''/nowhere.py''])
       ''hc:'' [''--help'', ''--command=''] = Inr ([(''-h'', [])], [''/nowhere.py''])"
    by (simp add: sample_env_def py_getopt_def startswith_def)
  have g': "getopt (sample_env [] True) (drop 1 (sys_argv ?w))
       ''hc:'' [''--help'', ''--command=''] = Inr ([(''-h'', [])], [''/nowhere.py''])"
    using g by (simp add: fresh_world_def)
  have h: "\<exists>opt \<in> set [(''-h'', [])]. fst opt = ''-h'' \<or> fst opt = ''--help''"
    by simp
  from main_help [OF g' h, of "[]"] g show ?thesis
    by simp
qed

theorem main_help_counterexample:
  "py_getopt (drop 1 [''ipdb'', ''-h'']) ''hc:'' [''--help'', ''--command=''] =
     Inr ([(''-h'', [])], [])
   \<and> fst (main (sample_env [] True) [] (fresh_world (Other_hook 0) [''ipdb'', ''-h''] [''/pdb''])) =
       Some (Exits (Some 2))
   \<and> exit_status (Some 2) \<noteq> 0"
  by (simp add: main_def main_setup_def sample_env_def fresh_world_def py_getopt_def
      startswith_def)

subsection \<open>The setup\<close>

text \<open>
  C9, as amended. When the setup goes through, \<^verbatim>\<open>sys.argv\<close> is what the option parser left:
  the script path followed by the script's arguments. The first entry of \<^verbatim>\<open>sys.path\<close> has been
  replaced by the script's directory; the other entries and the length of the path are as
  before.
\<close>

theorem main_setup_argv_path:
  assumes "main_setup E s = (Inr (mainpyfile, commands), s')"
  shows "\<exists>opts rest.
           getopt E (drop 1 (sys_argv s)) ''hc:'' [''--help'', ''--command=''] =
             Inr (opts, mainpyfile # rest)
           \<and> sys_argv s' = mainpyfile # rest
           \<and> sys_path s \<noteq> []
           \<and> sys_path s' = os_path_dirname E mainpyfile # tl (sys_path s)
           \<and> hd (sys_path s') = os_path_dirname E mainpyfile
           \<and> length (sys_path s') = length (sys_path s)"
  using assms
  by (auto simp: main_setup_def Let_def split: sum.splits list.splits option.splits if_splits)

theorem main_setup_argv_path_witness:
  "main_setup (sample_env [] True) sample_world =
     (Inr (''/home/u/script.py'', [''continue'']),
      sample_world\<lparr>sys_argv := [''/home/u/script.py'', ''a''],
                   sys_path := [''/home/u'', ''/usr/lib'']\<rparr>)
   \<and> sys_path (sample_world\<lparr>sys_argv := [''/home/u/script.py'', ''a''],
                   sys_path := [''/home/u'', ''/usr/lib'']\<rparr>) =
       os_path_dirname (sample_env [] True) ''/home/u/script.py'' # tl (sys_path sample_world)"
proof -
  have a: "main_setup (sample_env [] True) sample_world =
     (Inr (''/home/u/script.py'', [''continue'']),
      sample_world\<lparr>sys_argv := [''/home/u/script.py'', ''a''],
                   sys_path := [''/home/u'', ''/usr/lib'']\<rparr>)"
    by (rule sample_setup)
  from main_setup_argv_path [OF a]
  have "sys_path (sample_world\<lparr>sys_argv := [''/home/u/script.py'', ''a''],
                   sys_path := [''/home/u'', ''/usr/lib'']\<rparr>) =
       os_path_dirname (sample_env [] True) ''/home/u/script.py'' # tl (sys_path sample_world)"
    by (elim exE conjE)
  with a show ?thesis
    by (rule conjI)
qed

theorem main_setup_path_counterexample:
  "sys_path sample_world = [''/pdb'', ''/usr/lib'']
   \<and> sys_path (snd (main_setup (sample_env [] True) sample_world)) = [''/home/u'', ''/usr/lib'']
   \<and> sys_path (snd (main_setup (sample_env [] True) sample_world)) \<noteq>
       os_path_dirname (sample_env [] True) ''/home/u/script.py'' # sys_path sample_world"
  by (simp add: sample_setup) (simp add: sample_world_def fresh_world_def sample_env_def)

subsection \<open>The loop: program exit\<close>

lemma main_loop_ends:
  "fst (main_loop E f as s) = Some r \<Longrightarrow>
     (r = Returns \<and> Completes True \<in> set as)
     \<or> (\<exists>x x'. r = Raises x' \<and> Fails x \<in> set as
            \<and> exc_class x \<noteq> Restart \<and> exc_class x \<noteq> SystemExit
            \<and> engine_interaction E (exc_tb x) = Some x')"
proof (induction as arbitrary: s)
  case Nil
  then show ?case by simp
next
  case (Cons a as)
  show ?case
  proof (cases a)
    case (Completes q)
    show ?thesis
    proof (cases q)
      case True
      with Completes Cons.prems show ?thesis
        by (simp add: Let_def)
    next
      case False
      with Completes Cons.prems have
        "fst (main_loop E f as
           (emit (Stdout (''The program finished and will be restarted'' @ nl))
              (emit (Runscript f) s))) = Some r"
        by (simp add: Let_def)
      from Cons.IH [OF this] show ?thesis
        by auto
    qed
  next
    case (Fails e)
    consider (restart) "exc_class e = Restart"
      | (exit) "exc_class e \<noteq> Restart" "exc_class e = SystemExit"
      | (raised) x' where "exc_class e \<noteq> Restart" "exc_class e \<noteq> SystemExit"
          "engine_interaction E (exc_tb e) = Some x'"
      | (session) "exc_class e \<noteq> Restart" "exc_class e \<noteq> SystemExit"
          "engine_interaction E (exc_tb e) = None"
      by (cases "engine_interaction E (exc_tb e)") auto
    then show ?thesis
    proof cases
      case restart
      with Fails Cons.prems obtain s' where "fst (main_loop E f as s') = Some r"
        by (simp add: Let_def)
      from Cons.IH [OF this] show ?thesis
        by auto
    next
      case exit
      with Fails Cons.prems obtain s' where "fst (main_loop E f as s') = Some r"
        by (simp add: Let_def)
      from Cons.IH [OF this] show ?thesis
        by auto
    next
      case raised
      with Fails Cons.prems have "r = Raises x'"
        by (simp add: Let_def)
      with raised Fails show ?thesis
        by auto
    next
      case session
      with Fails Cons.prems obtain s' where "fst (main_loop E f as s') = Some r"
        by (simp add: Let_def)
      from Cons.IH [OF this] show ?thesis
        by auto
    qed
  qed
qed

text \<open>
  C3, as amended. When the executed script raises \<^verbatim>\<open>SystemExit\<close>, the runner prints the
  exit status and enters no post-mortem session. The loop does not end there: it goes on
  from the state after the two prints, so with this attempt alone it has not ended, and with
  a further attempt the next thing it does is to execute the script again. When the loop does
  end after it, a later execution of the script has ended it: one that completed with the
  user having requested to quit, after which \<^verbatim>\<open>main\<close> returns, or one that raised an uncaught
  exception whose post-mortem session raised, which leaves \<^verbatim>\<open>main\<close>. These are the only ends
  the loop has, whatever the executions of the script are.
\<close>

theorem main_loop_program_exit:
  assumes "exc_class e = SystemExit"
  shows "main_loop E f (Fails e # as) s =
           main_loop E f as
             (s\<lparr>trace := trace s @ map (Pair (sys_excepthook s))
                  [Runscript f,
                   Stdout ''The program exited via sys.exit(). Exit status: '',
                   Stdout (exc_str e @ nl)]\<rparr>)
       \<and> fst (main_loop E f [Fails e] s) = None
       \<and> map snd (new_events s (snd (main_loop E f [Fails e] s))) =
           [Runscript f,
            Stdout ''The program exited via sys.exit(). Exit status: '',
            Stdout (exc_str e @ nl)]
       \<and> take 4 (map snd (new_events s (snd (main_loop E f (Fails e # a # as) s)))) =
           [Runscript f,
            Stdout ''The program exited via sys.exit(). Exit status: '',
            Stdout (exc_str e @ nl),
            Runscript f]
       \<and> (\<forall>r. fst (main_loop E f (Fails e # as) s) = Some r \<longrightarrow>
              (r = Returns \<and> Completes True \<in> set as)
              \<or> (\<exists>x x'. r = Raises x' \<and> Fails x \<in> set as
                     \<and> exc_class x \<noteq> Restart \<and> exc_class x \<noteq> SystemExit
                     \<and> engine_interaction E (exc_tb x) = Some x'))
       \<and> (\<forall>r. fst (main_loop E f bs s0) = Some r \<longrightarrow>
              (r = Returns \<and> Completes True \<in> set bs)
              \<or> (\<exists>x x'. r = Raises x' \<and> Fails x \<in> set bs
                     \<and> exc_class x \<noteq> Restart \<and> exc_class x \<noteq> SystemExit
                     \<and> engine_interaction E (exc_tb x) = Some x'))"
proof -
  have step: "main_loop E f (Fails e # as') s =
      main_loop E f as'
        (s\<lparr>trace := trace s @ map (Pair (sys_excepthook s))
             [Runscript f,
              Stdout ''The program exited via sys.exit(). Exit status: '',
              Stdout (exc_str e @ nl)]\<rparr>)" for as'
    using assms by (simp add: emit_def Let_def)
  have running: "fst (main_loop E f [Fails e] s) = None"
    by (subst step) simp
  have one: "map snd (new_events s (snd (main_loop E f [Fails e] s))) =
      [Runscript f,
       Stdout ''The program exited via sys.exit(). Exit status: '',
       Stdout (exc_str e @ nl)]"
    by (subst main_loop_new_events) (use assms in simp)
  have again: "take 4 (map snd (new_events s (snd (main_loop E f (Fails e # a # as) s)))) =
      [Runscript f,
       Stdout ''The program exited via sys.exit(). Exit status: '',
       Stdout (exc_str e @ nl),
       Runscript f]"
    by (subst main_loop_new_events) (use assms in simp)
  have later: "\<forall>r. fst (main_loop E f (Fails e # as) s) = Some r \<longrightarrow>
      (r = Returns \<and> Completes True \<in> set as)
      \<or> (\<exists>x x'. r = Raises x' \<and> Fails x \<in> set as
             \<and> exc_class x \<noteq> Restart \<and> exc_class x \<noteq> SystemExit
             \<and> engine_interaction E (exc_tb x) = Some x')"
    unfolding step [of as] using main_loop_ends by blast
  have ends: "\<forall>r. fst (main_loop E f bs s0) = Some r \<longrightarrow>
      (r = Returns \<and> Completes True \<in> set bs)
      \<or> (\<exists>x x'. r = Raises x' \<and> Fails x \<in> set bs
             \<and> exc_class x \<noteq> Restart \<and> exc_class x \<noteq> SystemExit
             \<and> engine_interaction E (exc_tb x) = Some x')"
    using main_loop_ends by blast
  from step [of as] running one again later ends show ?thesis
    by (intro conjI)
qed

theorem main_loop_program_exit_witness:
  "exc_class (Exc SystemExit ''SystemExit(3)'' ''3'' 7) = SystemExit
   \<and> fst (main_loop (sample_env [] True) ''/home/u/script.py''
          [Fails (Exc SystemExit ''SystemExit(3)'' ''3'' 7)] sample_world) = None
   \<and> map snd (new_events sample_world
        (snd (main_loop (sample_env [] True) ''/home/u/script.py''
          [Fails (Exc SystemExit ''SystemExit(3)'' ''3'' 7)] sample_world))) =
       [Runscript ''/home/u/script.py'',
        Stdout ''The program exited via sys.exit(). Exit status: '',
        Stdout ''3\<newline>'']
   \<and> fst (main_loop (sample_env [] True) ''/home/u/script.py''
          [Fails (Exc SystemExit ''SystemExit(3)'' ''3'' 7), Completes True] sample_world) =
       Some Returns
   \<and> Completes True \<in> set [Completes True]"
proof -
  let ?x = "Exc SystemExit ''SystemExit(3)'' ''3'' 7"
  have c: "exc_class ?x = SystemExit"
    by simp
  note th = main_loop_program_exit [OF c, of "sample_env [] True" "''/home/u/script.py''"
      "[]" sample_world "Completes True" "[]" sample_world]
  from th have r: "fst (main_loop (sample_env [] True) ''/home/u/script.py''
      [Fails ?x] sample_world) = None"
    by (elim conjE)
  from th have t: "map snd (new_events sample_world
      (snd (main_loop (sample_env [] True) ''/home/u/script.py''
        [Fails ?x] sample_world))) =
      [Runscript ''/home/u/script.py'',
       Stdout ''The program exited via sys.exit(). Exit status: '',
       Stdout (exc_str ?x @ nl)]"
    by (elim conjE)
  have q: "fst (main_loop (sample_env [] True) ''/home/u/script.py''
      [Fails ?x, Completes True] sample_world) = Some Returns"
    by (simp add: Let_def)
  from main_loop_program_exit [OF c, of "sample_env [] True" "''/home/u/script.py''"
      "[Completes True]" sample_world "Completes True" "[]" sample_world]
  have "\<forall>r. fst (main_loop (sample_env [] True) ''/home/u/script.py''
        (Fails ?x # [Completes True]) sample_world) = Some r \<longrightarrow>
      (r = Returns \<and> Completes True \<in> set [Completes True])
      \<or> (\<exists>x x'. r = Raises x' \<and> Fails x \<in> set [Completes True]
             \<and> exc_class x \<noteq> Restart \<and> exc_class x \<noteq> SystemExit
             \<and> engine_interaction (sample_env [] True) (exc_tb x) = Some x')"
    by (elim conjE)
  with q have m: "Completes True \<in> set [Completes True]"
    by blast
  from c r t q m show ?thesis
    by (simp add: nl_def)
qed

theorem main_loop_program_exit_counterexample:
  "fst (main (sample_env [] True)
          [Fails (Exc SystemExit ''SystemExit(3)'' ''3'' 7)] sample_world) = None
   \<and> fst (main (sample_env [] True)
          [Fails (Exc SystemExit ''SystemExit(3)'' ''3'' 7), Completes True] sample_world) =
       Some Returns
   \<and> map snd (trace (snd (main (sample_env [] True)
          [Fails (Exc SystemExit ''SystemExit(3)'' ''3'' 7), Completes True] sample_world))) =
       [Construct ''Neutral'' (Some 3),
        Runscript ''/home/u/script.py'',
        Stdout ''The program exited via sys.exit(). Exit status: '',
        Stdout ''3\<newline>'',
        Runscript ''/home/u/script.py'']"
  by (simp add: sample_main Let_def) (simp add: emit_def sample_world_def fresh_world_def nl_def)

subsection \<open>The loop: uncaught exception\<close>

text \<open>
  C5. When the executed script raises an exception that is neither \<^verbatim>\<open>Restart\<close> nor
  \<^verbatim>\<open>SystemExit\<close>, and the session that follows ends normally, the iteration consists of the
  execution of the script, the printed traceback, the two lines that announce the post-mortem
  session, one session on the exception's traceback, and the notice that the program will
  be restarted, in this order. The loop goes on from there, and with a further attempt the
  next thing it does is to execute the same script again.
\<close>

theorem main_loop_uncaught_exception:
  assumes "exc_class e \<noteq> Restart" and "exc_class e \<noteq> SystemExit"
    and "engine_interaction E (exc_tb e) = None"
  shows "main_loop E f (Fails e # as) s =
           main_loop E f as
             (s\<lparr>trace := trace s @ map (Pair (sys_excepthook s))
                  [Runscript f,
                   Print_exc e,
                   Stdout (''Uncaught exception. Entering post mortem debugging'' @ nl),
                   Stdout (''Running 'cont' or 'step' will restart the program'' @ nl),
                   Interaction (exc_tb e),
                   Stdout (''Post mortem debugger finished. The '' @ f @
                           '' will be restarted'' @ nl)]\<rparr>)
       \<and> take 7 (map snd (new_events s (snd (main_loop E f (Fails e # a # as) s)))) =
           [Runscript f,
            Print_exc e,
            Stdout (''Uncaught exception. Entering post mortem debugging'' @ nl),
            Stdout (''Running 'cont' or 'step' will restart the program'' @ nl),
            Interaction (exc_tb e),
            Stdout (''Post mortem debugger finished. The '' @ f @ '' will be restarted'' @ nl),
            Runscript f]"
proof -
  have step: "main_loop E f (Fails e # as) s =
      main_loop E f as
        (s\<lparr>trace := trace s @ map (Pair (sys_excepthook s))
             [Runscript f,
              Print_exc e,
              Stdout (''Uncaught exception. Entering post mortem debugging'' @ nl),
              Stdout (''Running 'cont' or 'step' will restart the program'' @ nl),
              Interaction (exc_tb e),
              Stdout (''Post mortem debugger finished. The '' @ f @
                      '' will be restarted'' @ nl)]\<rparr>)"
    using assms by (simp add: emit_def Let_def)
  have again: "take 7 (map snd (new_events s (snd (main_loop E f (Fails e # a # as) s)))) =
      [Runscript f,
       Print_exc e,
       Stdout (''Uncaught exception. Entering post mortem debugging'' @ nl),
       Stdout (''Running 'cont' or 'step' will restart the program'' @ nl),
       Interaction (exc_tb e),
       Stdout (''Post mortem debugger finished. The '' @ f @ '' will be restarted'' @ nl),
       Runscript f]"
    by (subst main_loop_new_events) (use assms in simp)
  from step again show ?thesis
    by (rule conjI)
qed

theorem main_loop_uncaught_exception_witness:
  "exc_class (Exc (Other_Exception ''ZeroDivisionError'')
       ''ZeroDivisionError('division by zero')'' ''division by zero'' 7) \<noteq> Restart
   \<and> exc_class (Exc (Other_Exception ''ZeroDivisionError'')
       ''ZeroDivisionError('division by zero')'' ''division by zero'' 7) \<noteq> SystemExit
   \<and> engine_interaction (sample_env [] True) 7 = None
   \<and> take 7 (map snd (new_events sample_world
        (snd (main_loop (sample_env [] True) ''/home/u/script.py''
          [Fails (Exc (Other_Exception ''ZeroDivisionError'')
              ''ZeroDivisionError('division by zero')'' ''division by zero'' 7),
           Completes True] sample_world)))) =
       [Runscript ''/home/u/script.py'',
        Print_exc (Exc (Other_Exception ''ZeroDivisionError'')
              ''ZeroDivisionError('division by zero')'' ''division by zero'' 7),
        Stdout ''Uncaught exception. Entering post mortem debugging\<newline>'',
        Stdout ''Running 'cont' or 'step' will restart the program\<newline>'',
        Interaction 7,
        Stdout ''Post mortem debugger finished. The /home/u/script.py will be restarted\<newline>'',
        Runscript ''/home/u/script.py'']"
proof -
  let ?e = "Exc (Other_Exception ''ZeroDivisionError'')
       ''ZeroDivisionError('division by zero')'' ''division by zero'' 7"
  have a: "exc_class ?e \<noteq> Restart" and b: "exc_class ?e \<noteq> SystemExit"
    by simp_all
  have c: "engine_interaction (sample_env [] True) (exc_tb ?e) = None"
    by (simp add: sample_env_def)
  note th = main_loop_uncaught_exception [OF a b c, of "''/home/u/script.py''" "[]"
      sample_world "Completes True"]
  from th have "take 7 (map snd (new_events sample_world
        (snd (main_loop (sample_env [] True) ''/home/u/script.py''
          [Fails ?e, Completes True] sample_world)))) =
       [Runscript ''/home/u/script.py'',
        Print_exc ?e,
        Stdout (''Uncaught exception. Entering post mortem debugging'' @ nl),
        Stdout (''Running 'cont' or 'step' will restart the program'' @ nl),
        Interaction (exc_tb ?e),
        Stdout (''Post mortem debugger finished. The '' @ ''/home/u/script.py'' @
                '' will be restarted'' @ nl),
        Runscript ''/home/u/script.py'']"
    by (elim conjE)
  with a b c show ?thesis
    by (simp add: nl_def)
qed

end
